theory Spec2Isabelle
  imports Main
begin

section \<open>Errors, request data and the absent validators\<close>

text \<open>
  The messages of the \<^verbatim>\<open>serializers.ValidationError\<close>s raised in
  \<^verbatim>\<open>api/serializers.py\<close> are Russian sentences; each is named by a constructor:
  \<^item> \<open>OneReviewOnly\<close>: the message of \<^verbatim>\<open>ReviewSerializer.validate\<close>
    ("no more than one review may be added");
  \<^item> \<open>NonexistentRole\<close>: the message of
    \<^verbatim>\<open>AdminOrSuperAdminUserSerializer.validate\<close> ("a role that does not exist is given");
  \<^item> \<open>EmptyConfirmationCode\<close>: the message of \<^verbatim>\<open>TokenSerializer.validate\<close>
    ("the confirmation code may not be empty");
  \<^item> \<open>Rejected s\<close>: whatever an imported validator of \<^verbatim>\<open>users.utils\<close> raises on \<open>s\<close>;
  \<^item> \<open>FieldErrors\<close>: the errors the declared fields of a serializer raise, by field
    name (a required field is missing, a value is blank, longer than \<^verbatim>\<open>max_length\<close>, or
    not of the field's format);
  \<^item> \<open>NotUniqueSet\<close>: the message of \<^verbatim>\<open>UniqueTogetherValidator\<close>.
\<close>

datatype field_error = Required | Blank | MaxLength | Invalid

datatype message = OneReviewOnly | NonexistentRole | EmptyConfirmationCode | Rejected string
  | FieldErrors "(string \<times> field_error list) list" | NotUniqueSet

datatype error = Http404 | ValidationError message | IntegrityError | TypeError | AttributeError

text \<open>
  The \<^verbatim>\<open>data\<close> dictionary handed to a \<^verbatim>\<open>validate\<close> method: field name to
  value. Every field written by these serializers is a character field.
\<close>

type_synonym data = "string \<rightharpoonup> string"

text \<open>\<^verbatim>\<open>str(data.get(key))\<close>: a missing key gives \<^verbatim>\<open>None\<close>, whose \<^verbatim>\<open>str\<close> is the text "None".\<close>

definition str_get :: "data \<Rightarrow> string \<Rightarrow> string" where
  "str_get d key = (case d key of None \<Rightarrow> ''None'' | Some v \<Rightarrow> v)"

text \<open>
  \<^verbatim>\<open>username_validate\<close> and \<^verbatim>\<open>email_validate\<close> are imported from
  \<^verbatim>\<open>users.utils\<close>, which is not among the sources. They are parameters of every
  function that calls them: a validator maps the string to the error it raises, or to
  \<open>None\<close> when it returns normally.
\<close>

type_synonym validator = "string \<Rightarrow> error option"

text \<open>
  Sample validators, used only to instantiate the parameters at concrete inputs: one
  that accepts every string, a username validator that rejects the reserved name
  \<^verbatim>\<open>me\<close>, and an email validator that accepts a string only when it contains
  \<^verbatim>\<open>@\<close>.
\<close>

definition accept_all :: validator where
  "accept_all s = None"

definition sample_username_validate :: validator where
  "sample_username_validate s = (if s = ''me'' then Some (ValidationError (Rejected s)) else None)"

definition sample_email_validate :: validator where
  "sample_email_validate s =
     (if CHR ''@'' \<in> set s then None else Some (ValidationError (Rejected s)))"

section \<open>The data model\<close>

text \<open>
  \<^verbatim>\<open>reviews/models.py\<close>, \<^verbatim>\<open>users/models.py\<close> and the first migration are not
  among the sources. The rows below carry the fields the specification lists for each
  entity, the implicit primary key, and the foreign keys that
  \<^verbatim>\<open>reviews/migrations/0002_initial.py\<close> adds (\<^verbatim>\<open>review.author\<close>,
  \<^verbatim>\<open>review.title\<close>, \<^verbatim>\<open>raiting.author\<close>, \<^verbatim>\<open>raiting.title\<close>,
  \<^verbatim>\<open>comment.author\<close>, \<^verbatim>\<open>comment.review\<close>). A foreign key holds the primary key
  of the row it points to.
\<close>

record User =
  user_id :: nat
  username :: string
  email :: string
  first_name :: string
  last_name :: string
  bio :: string
  role :: string
  confirmation_code :: string

record Title =
  title_id :: nat
  title_name :: string
  title_year :: int

record Review =
  review_id :: nat
  review_text :: string
  review_score :: int
  review_title :: nat
  review_author :: nat
  review_pub_date :: string

record Comment =
  comment_id :: nat
  comment_text :: string
  comment_review :: nat
  comment_author :: nat
  comment_pub_date :: string

record Raiting =
  raiting_id :: nat
  raiting_title :: nat
  raiting_author :: "nat option"

record database =
  users :: "User list"
  titles :: "Title list"
  reviews :: "Review list"
  comments :: "Comment list"
  raitings :: "Raiting list"

section \<open>ReviewSerializer.validate\<close>

record request =
  request_method :: string
  request_user :: nat

text \<open>
  \<^verbatim>\<open>get_object_or_404(Title, pk=title_id)\<close>. The key comes from
  \<^verbatim>\<open>self.context['view'].kwargs.get('title_id')\<close>, which is \<^verbatim>\<open>None\<close> when the
  route carries no such argument; no row has the key \<^verbatim>\<open>None\<close>.
\<close>

definition get_object_or_404_Title :: "database \<Rightarrow> nat option \<Rightarrow> error + Title" where
  "get_object_or_404_Title db pk =
     (case pk of
        None \<Rightarrow> Inl Http404
      | Some k \<Rightarrow>
          (case find (\<lambda>t. title_id t = k) (titles db) of
             None \<Rightarrow> Inl Http404
           | Some t \<Rightarrow> Inr t))"

text \<open>\<^verbatim>\<open>Review.objects.filter(title=title, author=author).exists()\<close>\<close>

definition review_exists :: "database \<Rightarrow> Title \<Rightarrow> nat \<Rightarrow> bool" where
  "review_exists db title author =
     (filter (\<lambda>r. review_title r = title_id title \<and> review_author r = author) (reviews db) \<noteq> [])"

definition ReviewSerializer_validate ::
  "database \<Rightarrow> request \<Rightarrow> nat option \<Rightarrow> data \<Rightarrow> error + data" where
  "ReviewSerializer_validate db req title_pk d =
     (let author = request_user req in
      case get_object_or_404_Title db title_pk of
        Inl e \<Rightarrow> Inl e
      | Inr title \<Rightarrow>
          if request_method req = ''POST'' then
            if review_exists db title author
            then Inl (ValidationError OneReviewOnly)
            else Inr d
          else Inr d)"

section \<open>The constraints and foreign keys of the migration\<close>

text \<open>
  \<^verbatim>\<open>models.UniqueConstraint(fields=('title', 'author'), name='unique review')\<close> on
  \<^verbatim>\<open>review\<close>: the database refuses to insert a row whose (title, author) pair is
  already that of a stored row.
\<close>

definition unique_review_key :: "Review \<Rightarrow> nat \<times> nat" where
  "unique_review_key r = (review_title r, review_author r)"

definition insert_review :: "database \<Rightarrow> Review \<Rightarrow> error + database" where
  "insert_review db r =
     (if unique_review_key r \<in> set (map unique_review_key (reviews db))
      then Inl IntegrityError
      else Inr (db\<lparr>reviews := reviews db @ [r]\<rparr>))"

text \<open>The invariant the constraint keeps: no two stored reviews share (title, author).\<close>

definition one_review_per_pair :: "database \<Rightarrow> bool" where
  "one_review_per_pair db = distinct (map unique_review_key (reviews db))"

text \<open>
  The foreign keys the migration adds, each with its \<^verbatim>\<open>on_delete\<close> behaviour.
\<close>

datatype on_delete = CASCADE | PROTECT | SET_NULL | DO_NOTHING

record ForeignKey =
  fk_model :: string
  fk_name :: string
  fk_to :: string
  fk_on_delete :: on_delete

definition review_author_fk :: ForeignKey where
  "review_author_fk =
     \<lparr>fk_model = ''review'', fk_name = ''author'', fk_to = ''AUTH_USER_MODEL'', fk_on_delete = CASCADE\<rparr>"

definition review_title_fk :: ForeignKey where
  "review_title_fk =
     \<lparr>fk_model = ''review'', fk_name = ''title'', fk_to = ''reviews.title'', fk_on_delete = CASCADE\<rparr>"

definition raiting_author_fk :: ForeignKey where
  "raiting_author_fk =
     \<lparr>fk_model = ''raiting'', fk_name = ''author'', fk_to = ''AUTH_USER_MODEL'', fk_on_delete = CASCADE\<rparr>"

definition raiting_title_fk :: ForeignKey where
  "raiting_title_fk =
     \<lparr>fk_model = ''raiting'', fk_name = ''title'', fk_to = ''reviews.title'', fk_on_delete = CASCADE\<rparr>"

definition comment_author_fk :: ForeignKey where
  "comment_author_fk =
     \<lparr>fk_model = ''comment'', fk_name = ''author'', fk_to = ''AUTH_USER_MODEL'', fk_on_delete = CASCADE\<rparr>"

definition comment_review_fk :: ForeignKey where
  "comment_review_fk =
     \<lparr>fk_model = ''comment'', fk_name = ''review'', fk_to = ''reviews.review'', fk_on_delete = CASCADE\<rparr>"

text \<open>
  Deleting rows the way the ORM does for these declarations: before the rows of a
  model go, the rows of every model whose foreign key to it is declared
  \<^verbatim>\<open>CASCADE\<close> and points at one of them are deleted too, and so on down.
  \<open>delete_reviews\<close> deletes the reviews whose keys are listed; \<open>delete_title\<close> and
  \<open>delete_review\<close> are the two deletions of a single object.
\<close>

definition delete_reviews :: "database \<Rightarrow> nat list \<Rightarrow> database" where
  "delete_reviews db pks =
     (let cs = (if fk_on_delete comment_review_fk = CASCADE
                then filter (\<lambda>c. comment_review c \<notin> set pks) (comments db)
                else comments db)
      in db\<lparr>reviews := filter (\<lambda>r. review_id r \<notin> set pks) (reviews db), comments := cs\<rparr>)"

definition delete_review :: "database \<Rightarrow> nat \<Rightarrow> database" where
  "delete_review db pk = delete_reviews db [pk]"

definition delete_title :: "database \<Rightarrow> nat \<Rightarrow> database" where
  "delete_title db pk =
     (let db1 = (if fk_on_delete review_title_fk = CASCADE
                 then delete_reviews db
                        (map review_id (filter (\<lambda>r. review_title r = pk) (reviews db)))
                 else db);
          db2 = (if fk_on_delete raiting_title_fk = CASCADE
                 then db1\<lparr>raitings := filter (\<lambda>x. raiting_title x \<noteq> pk) (raitings db1)\<rparr>
                 else db1)
      in db2\<lparr>titles := filter (\<lambda>t. title_id t \<noteq> pk) (titles db2)\<rparr>)"

text \<open>
  Referential integrity of the two foreign keys on the path title, review, comment:
  every review points at a stored title and every comment at a stored review.
\<close>

definition references_ok :: "database \<Rightarrow> bool" where
  "references_ok db =
     (list_all (\<lambda>r. review_title r \<in> set (map title_id (titles db))) (reviews db) \<and>
      list_all (\<lambda>c. comment_review c \<in> set (map review_id (reviews db))) (comments db))"

section \<open>The validate methods of the user serializers\<close>

text \<open>
  \<^verbatim>\<open>UserSerializer.validate\<close> and \<^verbatim>\<open>MeSerializer.validate\<close> have the same body.
\<close>

definition UserSerializer_validate :: "validator \<Rightarrow> validator \<Rightarrow> data \<Rightarrow> error + data" where
  "UserSerializer_validate username_validate email_validate d =
     (case username_validate (str_get d ''username'') of
        Some e \<Rightarrow> Inl e
      | None \<Rightarrow>
          (case email_validate (str_get d ''email'') of
             Some e \<Rightarrow> Inl e
           | None \<Rightarrow> Inr d))"

definition MeSerializer_validate :: "validator \<Rightarrow> validator \<Rightarrow> data \<Rightarrow> error + data" where
  "MeSerializer_validate username_validate email_validate d =
     (case username_validate (str_get d ''username'') of
        Some e \<Rightarrow> Inl e
      | None \<Rightarrow>
          (case email_validate (str_get d ''email'') of
             Some e \<Rightarrow> Inl e
           | None \<Rightarrow> Inr d))"

text \<open>
  \<^verbatim>\<open>CHOICE_ROLES\<close> is imported from \<^verbatim>\<open>users.models\<close>, which is not among the
  sources; it is a parameter of the function that reads it. As the \<^verbatim>\<open>choices\<close> of a
  model field it is a sequence of (stored value, label) pairs, and \<^verbatim>\<open>role in i\<close> for
  such a pair \<open>i\<close> is membership in the pair.
\<close>

type_synonym choices = "(string \<times> string) list"

definition in_pair :: "string \<Rightarrow> string \<times> string \<Rightarrow> bool" where
  "in_pair x i = (x = fst i \<or> x = snd i)"

text \<open>
  Modelled from the spec: \<^verbatim>\<open>CHOICE_ROLES\<close> of the absent \<^verbatim>\<open>users/models.py\<close>,
  "role in {user, moderator, admin}"; each label is taken to be the value itself.
\<close>

definition CHOICE_ROLES :: choices where
  "CHOICE_ROLES = [(''user'', ''user''), (''moderator'', ''moderator''), (''admin'', ''admin'')]"

definition AdminOrSuperAdminUserSerializer_validate ::
  "validator \<Rightarrow> validator \<Rightarrow> choices \<Rightarrow> data \<Rightarrow> error + data" where
  "AdminOrSuperAdminUserSerializer_validate username_validate email_validate choice_roles d =
     (case username_validate (str_get d ''username'') of
        Some e \<Rightarrow> Inl e
      | None \<Rightarrow>
          (case email_validate (str_get d ''email'') of
             Some e \<Rightarrow> Inl e
           | None \<Rightarrow>
               (let role = str_get d ''role'' in
                if list_ex (in_pair role) choice_roles
                then Inl (ValidationError NonexistentRole)
                else Inr d)))"

text \<open>What the specification says of the role check: the role is one of the enumerated roles.\<close>

definition enumerated_role :: "string \<Rightarrow> bool" where
  "enumerated_role r = (r \<in> {''user'', ''moderator'', ''admin''})"

definition SignUpSerializer_validate :: "validator \<Rightarrow> validator \<Rightarrow> data \<Rightarrow> error + data" where
  "SignUpSerializer_validate username_validate email_validate d =
     (case username_validate (str_get d ''username'') of
        Some e \<Rightarrow> Inl e
      | None \<Rightarrow>
          (case email_validate (str_get d ''username'') of
             Some e \<Rightarrow> Inl e
           | None \<Rightarrow> Inr d))"



section \<open>Creating users\<close>

text \<open>
  Both \<^verbatim>\<open>create\<close> methods compute \<^verbatim>\<open>str(get_unique_confirmation_code)\<close>: the
  name is not called, so the argument of \<^verbatim>\<open>str\<close> is the function object itself. The
  text of a function object gives its name and the address the interpreter loaded it
  at, which is fixed once \<^verbatim>\<open>users.utils\<close> is imported; the address is a parameter.
\<close>

record py_function =
  fn_name :: string
  fn_address :: string

definition str_function :: "py_function \<Rightarrow> string" where
  "str_function f = ''<function '' @ fn_name f @ '' at 0x'' @ fn_address f @ ''>''"

definition get_unique_confirmation_code :: "string \<Rightarrow> py_function" where
  "get_unique_confirmation_code address =
     \<lparr>fn_name = ''get_unique_confirmation_code'', fn_address = address\<rparr>"

text \<open>
  \<^verbatim>\<open>setattr(instance, attr, value)\<close> for each item of a dictionary, on a user row.
\<close>

definition set_attr :: "data \<Rightarrow> string \<Rightarrow> string \<Rightarrow> string" where
  "set_attr d key old = (case d key of None \<Rightarrow> old | Some v \<Rightarrow> v)"

definition User_setattrs :: "User \<Rightarrow> data \<Rightarrow> User" where
  "User_setattrs u d =
     u\<lparr>username := set_attr d ''username'' (username u),
       email := set_attr d ''email'' (email u),
       first_name := set_attr d ''first_name'' (first_name u),
       last_name := set_attr d ''last_name'' (last_name u),
       bio := set_attr d ''bio'' (bio u),
       role := set_attr d ''role'' (role u),
       confirmation_code := set_attr d ''confirmation_code'' (confirmation_code u)\<rparr>"

text \<open>
  \<^verbatim>\<open>User.objects.create(**kwargs)\<close>: a row with the model's defaults (the model is
  absent, so the row of defaults is a parameter), the keyword arguments set on it, and
  a fresh primary key; the row is stored.
\<close>

definition fresh_user_id :: "database \<Rightarrow> nat" where
  "fresh_user_id db = Suc (fold max (map user_id (users db)) 0)"

definition User_objects_create :: "User \<Rightarrow> database \<Rightarrow> data \<Rightarrow> User \<times> database" where
  "User_objects_create defaults db kwargs =
     (let u = (User_setattrs defaults kwargs)\<lparr>user_id := fresh_user_id db\<rparr>
      in (u, db\<lparr>users := users db @ [u]\<rparr>))"

text \<open>
  \<^verbatim>\<open>User.objects.create(**validated_data, confirmation_code=confirm_code)\<close>: a key
  \<^verbatim>\<open>confirmation_code\<close> in \<^verbatim>\<open>validated_data\<close> would be a repeated keyword argument,
  a \<^verbatim>\<open>TypeError\<close>.
\<close>

definition UserSerializer_create ::
  "string \<Rightarrow> User \<Rightarrow> database \<Rightarrow> data \<Rightarrow> error + User \<times> database" where
  "UserSerializer_create address defaults db validated_data =
     (let confirm_code = str_function (get_unique_confirmation_code address) in
      if validated_data ''confirmation_code'' \<noteq> None then Inl TypeError
      else Inr (User_objects_create defaults db
                  (validated_data(''confirmation_code'' \<mapsto> confirm_code))))"

definition AdminOrSuperAdminUserSerializer_create ::
  "string \<Rightarrow> User \<Rightarrow> database \<Rightarrow> data \<Rightarrow> error + User \<times> database" where
  "AdminOrSuperAdminUserSerializer_create address defaults db validated_data =
     (let confirm_code = str_function (get_unique_confirmation_code address) in
      if validated_data ''confirmation_code'' \<noteq> None then Inl TypeError
      else Inr (User_objects_create defaults db
                  (validated_data(''confirmation_code'' \<mapsto> confirm_code))))"

section \<open>Representation of reviews and comments\<close>

text \<open>
  \<^verbatim>\<open>ReviewSerializer\<close> and \<^verbatim>\<open>CommentSerializer\<close> are declarations: two
  \<^verbatim>\<open>SlugRelatedField\<close>s each and \<^verbatim>\<open>Meta.fields = '__all__'\<close>. What they produce
  is what the serializer base class does with such a declaration, which is written out
  here: attribute access on a model instance, the attribute a field reads, the
  representation of the attribute, and the field names of \<^verbatim>\<open>'__all__'\<close>.
\<close>

datatype json = JNull | JInt int | JStr string

datatype model_instance = AUser User | ATitle Title | AReview Review | AComment Comment

text \<open>
  \<^verbatim>\<open>getattr(instance, name)\<close> for the columns and the forward relations of the four
  models: a plain value, a related object fetched by its key, \<open>NoObject\<close> when the
  related row is not stored (\<^verbatim>\<open>ObjectDoesNotExist\<close>), \<open>NoAttribute\<close> when the model
  has no such attribute (\<^verbatim>\<open>AttributeError\<close>). A foreign key \<^verbatim>\<open>f\<close> also gives the
  attribute \<^verbatim>\<open>f_id\<close>, the stored key.
\<close>

datatype attribute = NoAttribute | NoObject | Plain json | Related model_instance

definition related :: "('a \<Rightarrow> model_instance) \<Rightarrow> 'a option \<Rightarrow> attribute" where
  "related mk row = (case row of None \<Rightarrow> NoObject | Some x \<Rightarrow> Related (mk x))"

fun getattr :: "database \<Rightarrow> model_instance \<Rightarrow> string \<Rightarrow> attribute" where
  "getattr db (AUser u) name =
     (if name = ''id'' then Plain (JInt (int (user_id u)))
      else if name = ''username'' then Plain (JStr (username u))
      else if name = ''email'' then Plain (JStr (email u))
      else if name = ''first_name'' then Plain (JStr (first_name u))
      else if name = ''last_name'' then Plain (JStr (last_name u))
      else if name = ''bio'' then Plain (JStr (bio u))
      else if name = ''role'' then Plain (JStr (role u))
      else if name = ''confirmation_code'' then Plain (JStr (confirmation_code u))
      else NoAttribute)"
| "getattr db (ATitle t) name =
     (if name = ''id'' then Plain (JInt (int (title_id t)))
      else if name = ''name'' then Plain (JStr (title_name t))
      else if name = ''year'' then Plain (JInt (title_year t))
      else NoAttribute)"
| "getattr db (AReview r) name =
     (if name = ''id'' then Plain (JInt (int (review_id r)))
      else if name = ''text'' then Plain (JStr (review_text r))
      else if name = ''score'' then Plain (JInt (review_score r))
      else if name = ''pub_date'' then Plain (JStr (review_pub_date r))
      else if name = ''title_id'' then Plain (JInt (int (review_title r)))
      else if name = ''author_id'' then Plain (JInt (int (review_author r)))
      else if name = ''title''
        then related ATitle (find (\<lambda>t. title_id t = review_title r) (titles db))
      else if name = ''author''
        then related AUser (find (\<lambda>u. user_id u = review_author r) (users db))
      else NoAttribute)"
| "getattr db (AComment c) name =
     (if name = ''id'' then Plain (JInt (int (comment_id c)))
      else if name = ''text'' then Plain (JStr (comment_text c))
      else if name = ''pub_date'' then Plain (JStr (comment_pub_date c))
      else if name = ''review_id'' then Plain (JInt (int (comment_review c)))
      else if name = ''author_id'' then Plain (JInt (int (comment_author c)))
      else if name = ''review''
        then related AReview (find (\<lambda>r. review_id r = comment_review c) (reviews db))
      else if name = ''author''
        then related AUser (find (\<lambda>u. user_id u = comment_author c) (users db))
      else NoAttribute)"

text \<open>
  The fields of a serializer: a declared \<^verbatim>\<open>SlugRelatedField(slug_field=..., read_only=...)\<close>,
  or the field the base class builds for a model field that is not declared: a
  \<^verbatim>\<open>PrimaryKeyRelatedField\<close> for a forward relation, a plain field for a column.
\<close>

datatype field = SlugRelatedField string bool | PrimaryKeyRelatedField | ModelField

datatype outcome = SkipField | Raise error | Rendered json

text \<open>
  One field of \<^verbatim>\<open>Serializer.to_representation\<close>, for the field stored under \<open>name\<close>
  (its source is its name). A field whose attribute is missing is skipped when it is
  not required, which a read-only field is not; a related object that is not stored
  renders as null; a slug field renders the slug attribute of the related object; a
  primary-key field reads the stored key without fetching the object.
\<close>

fun field_to_representation :: "database \<Rightarrow> model_instance \<Rightarrow> string \<Rightarrow> field \<Rightarrow> outcome" where
  "field_to_representation db obj name (SlugRelatedField slug_field read_only) =
     (case getattr db obj name of
        NoAttribute \<Rightarrow> if read_only then SkipField else Raise AttributeError
      | NoObject \<Rightarrow> Rendered JNull
      | Plain v \<Rightarrow> Raise AttributeError
      | Related target \<Rightarrow>
          (case getattr db target slug_field of
             Plain v \<Rightarrow> Rendered v
           | _ \<Rightarrow> Raise AttributeError))"
| "field_to_representation db obj name PrimaryKeyRelatedField =
     (case getattr db obj (name @ ''_id'') of
        Plain v \<Rightarrow> Rendered v
      | _ \<Rightarrow> Raise AttributeError)"
| "field_to_representation db obj name ModelField =
     (case getattr db obj name of
        Plain v \<Rightarrow> Rendered v
      | _ \<Rightarrow> Raise AttributeError)"

fun to_representation ::
  "database \<Rightarrow> model_instance \<Rightarrow> (string \<times> field) list \<Rightarrow> error + (string \<times> json) list" where
  "to_representation db obj [] = Inr []"
| "to_representation db obj ((name, f) # fs) =
     (case field_to_representation db obj name f of
        Raise e \<Rightarrow> Inl e
      | SkipField \<Rightarrow> to_representation db obj fs
      | Rendered v \<Rightarrow>
          (case to_representation db obj fs of
             Inl e \<Rightarrow> Inl e
           | Inr ret \<Rightarrow> Inr ((name, v) # ret)))"

text \<open>
  The fields of \<^verbatim>\<open>Meta.fields = '__all__'\<close>: the primary key, the declared fields,
  the columns of the model and its forward relations, each name once, at its first
  place; a declared field stands for the model field of the same name.
\<close>

record model_info =
  pk_name :: string
  columns :: "string list"
  forward_relations :: "string list"

fun first_occurrences :: "string list \<Rightarrow> string list" where
  "first_occurrences [] = []"
| "first_occurrences (x # xs) = x # first_occurrences (filter (\<lambda>y. y \<noteq> x) xs)"

definition build_field :: "(string \<times> field) list \<Rightarrow> model_info \<Rightarrow> string \<Rightarrow> string \<times> field" where
  "build_field declared info name =
     (case map_of declared name of
        Some f \<Rightarrow> (name, f)
      | None \<Rightarrow>
          if name \<in> set (forward_relations info) then (name, PrimaryKeyRelatedField)
          else (name, ModelField))"

definition all_fields :: "(string \<times> field) list \<Rightarrow> model_info \<Rightarrow> (string \<times> field) list" where
  "all_fields declared info =
     map (build_field declared info)
       (first_occurrences
          (pk_name info # map fst declared @ columns info @ forward_relations info))"

text \<open>
  Modelled from the spec: the fields of the \<^verbatim>\<open>Review\<close> and \<^verbatim>\<open>Comment\<close> models
  of the absent \<^verbatim>\<open>reviews/models.py\<close>, "Review (text, score, title, author)" with the
  \<^verbatim>\<open>pub_date\<close> of its JSON shape, "Comment (text, review, author)" with the
  publication date of a comment; the two relations of each are those of the migration.
\<close>

definition Review_info :: model_info where
  "Review_info =
     \<lparr>pk_name = ''id'', columns = [''text'', ''score'', ''pub_date''],
      forward_relations = [''title'', ''author'']\<rparr>"

definition Comment_info :: model_info where
  "Comment_info =
     \<lparr>pk_name = ''id'', columns = [''text'', ''pub_date''],
      forward_relations = [''review'', ''author'']\<rparr>"

definition ReviewSerializer_declared :: "(string \<times> field) list" where
  "ReviewSerializer_declared =
     [(''author'', SlugRelatedField ''username'' True),
      (''title'', SlugRelatedField ''name'' True)]"

definition ReviewSerializer_to_representation ::
  "database \<Rightarrow> Review \<Rightarrow> error + (string \<times> json) list" where
  "ReviewSerializer_to_representation db r =
     to_representation db (AReview r) (all_fields ReviewSerializer_declared Review_info)"

definition CommentSerializer_declared :: "(string \<times> field) list" where
  "CommentSerializer_declared =
     [(''author'', SlugRelatedField ''username'' True),
      (''reviews'', SlugRelatedField ''text'' True)]"

definition CommentSerializer_to_representation ::
  "database \<Rightarrow> Comment \<Rightarrow> error + (string \<times> json) list" where
  "CommentSerializer_to_representation db c =
     to_representation db (AComment c) (all_fields CommentSerializer_declared Comment_info)"

section \<open>Updating a profile through MeSerializer\<close>

text \<open>
  \<^verbatim>\<open>MeSerializer\<close> declares \<^verbatim>\<open>email = EmailField(max_length=254)\<close>,
  \<^verbatim>\<open>username = CharField(max_length=150)\<close> and
  \<^verbatim>\<open>role = CharField(max_length=15, read_only=True)\<close>, lists the six names of
  \<^verbatim>\<open>Meta.fields\<close>, and defines \<^verbatim>\<open>validate\<close>; updating is left to the base class.
  A field declaration carries the options that decide what the base class does with a
  submitted value.
\<close>

datatype field_class = CharField | EmailField

record field_decl =
  field_name :: string
  field_class :: field_class
  max_length :: "nat option"
  read_only :: bool
  required :: bool
  allow_blank :: bool

text \<open>
  The three fields of \<^verbatim>\<open>Meta.fields\<close> that are not declared are built from the
  model. Modelled from the spec: \<^verbatim>\<open>first_name\<close>, \<^verbatim>\<open>last_name\<close> and \<^verbatim>\<open>bio\<close> of
  the absent \<^verbatim>\<open>users/models.py\<close>, taken as optional text that may be blank.
\<close>

definition MeSerializer_fields :: "field_decl list" where
  "MeSerializer_fields =
     [\<lparr>field_name = ''email'', field_class = EmailField, max_length = Some 254,
       read_only = False, required = True, allow_blank = False\<rparr>,
      \<lparr>field_name = ''username'', field_class = CharField, max_length = Some 150,
       read_only = False, required = True, allow_blank = False\<rparr>,
      \<lparr>field_name = ''first_name'', field_class = CharField, max_length = None,
       read_only = False, required = False, allow_blank = True\<rparr>,
      \<lparr>field_name = ''last_name'', field_class = CharField, max_length = None,
       read_only = False, required = False, allow_blank = True\<rparr>,
      \<lparr>field_name = ''bio'', field_class = CharField, max_length = None,
       read_only = False, required = False, allow_blank = True\<rparr>,
      \<lparr>field_name = ''role'', field_class = CharField, max_length = Some 15,
       read_only = True, required = False, allow_blank = False\<rparr>]"

text \<open>\<^verbatim>\<open>str.strip()\<close>, on the whitespace characters of ASCII.\<close>

definition is_space :: "char \<Rightarrow> bool" where
  "is_space c = (c \<in> set [CHR '' '', CHR 0x09, CHR 0x0A, CHR 0x0B, CHR 0x0C, CHR 0x0D,
                           CHR 0x1C, CHR 0x1D, CHR 0x1E, CHR 0x1F])"

definition strip :: "string \<Rightarrow> string" where
  "strip s = rev (dropWhile is_space (rev (dropWhile is_space s)))"

text \<open>
  \<^verbatim>\<open>run_validation\<close> of a writable character field on the submitted value, \<open>None\<close>
  when the request has no such key. The result is the validated value, \<open>None\<close> when
  the field is left out of the validated data, or the errors of the field. The format
  validators of the field classes (the email format of an \<^verbatim>\<open>EmailField\<close>, the
  characters no character field takes) are the framework's and are a parameter.
\<close>

definition run_validation ::
  "(field_class \<Rightarrow> string \<Rightarrow> bool) \<Rightarrow> bool \<Rightarrow> field_decl \<Rightarrow> string option
     \<Rightarrow> field_error list + string option" where
  "run_validation class_validators partial f submitted =
     (case submitted of
        None \<Rightarrow>
          if partial then Inr None
          else if required f then Inl [Required]
          else Inr None
      | Some raw \<Rightarrow>
          (let v = strip raw in
           if v = [] then (if allow_blank f then Inr (Some []) else Inl [Blank])
           else
             (let errors =
                (if (case max_length f of None \<Rightarrow> False | Some n \<Rightarrow> n < length v)
                 then [MaxLength] else []) @
                (if class_validators (field_class f) v then [] else [Invalid])
              in if errors = [] then Inr (Some v) else Inl errors)))"

text \<open>
  \<^verbatim>\<open>Serializer.to_internal_value\<close>: the writable fields, in order, each run on the
  value the request gives for it; the errors are collected by field name and the
  validated values by field name. A read-only field is not a writable field: what the
  request gives for it is never read.
\<close>

fun to_internal_value ::
  "(field_class \<Rightarrow> string \<Rightarrow> bool) \<Rightarrow> bool \<Rightarrow> field_decl list \<Rightarrow> data
     \<Rightarrow> (string \<times> field_error list) list \<Rightarrow> data
     \<Rightarrow> (string \<times> field_error list) list \<times> data" where
  "to_internal_value class_validators partial [] d errors ret = (errors, ret)"
| "to_internal_value class_validators partial (f # fs) d errors ret =
     (if read_only f then to_internal_value class_validators partial fs d errors ret
      else
        (case run_validation class_validators partial f (d (field_name f)) of
           Inl es \<Rightarrow>
             to_internal_value class_validators partial fs d (errors @ [(field_name f, es)]) ret
         | Inr None \<Rightarrow> to_internal_value class_validators partial fs d errors ret
         | Inr (Some v) \<Rightarrow>
             to_internal_value class_validators partial fs d errors (ret(field_name f \<mapsto> v))))"

text \<open>
  \<^verbatim>\<open>UniqueTogetherValidator(queryset=User.objects.all(), fields=['username', 'email'])\<close>
  on an update: a field the validated data lacks is taken from the instance, the
  instance itself is left out of the query.
\<close>

definition UniqueTogetherValidator :: "database \<Rightarrow> User \<Rightarrow> data \<Rightarrow> error option" where
  "UniqueTogetherValidator db inst attrs =
     (let un = set_attr attrs ''username'' (username inst);
          em = set_attr attrs ''email'' (email inst)
      in if filter (\<lambda>u. username u = un \<and> email u = em \<and> user_id u \<noteq> user_id inst) (users db) \<noteq> []
         then Some (ValidationError NotUniqueSet)
         else None)"

text \<open>
  \<^verbatim>\<open>Serializer.run_validation\<close> of \<^verbatim>\<open>MeSerializer\<close>: the fields, then the validators
  of \<^verbatim>\<open>Meta\<close>, then \<^verbatim>\<open>validate\<close>.
\<close>

definition MeSerializer_run_validation ::
  "(field_class \<Rightarrow> string \<Rightarrow> bool) \<Rightarrow> bool \<Rightarrow> validator \<Rightarrow> validator \<Rightarrow> database \<Rightarrow> User
     \<Rightarrow> data \<Rightarrow> error + data" where
  "MeSerializer_run_validation class_validators partial username_validate email_validate db inst d =
     (case to_internal_value class_validators partial MeSerializer_fields d [] Map.empty of
        (e # es, ret) \<Rightarrow> Inl (ValidationError (FieldErrors (e # es)))
      | ([], attrs) \<Rightarrow>
          (case UniqueTogetherValidator db inst attrs of
             Some e \<Rightarrow> Inl e
           | None \<Rightarrow> MeSerializer_validate username_validate email_validate attrs))"

text \<open>
  \<^verbatim>\<open>ModelSerializer.update\<close>: every item of the validated data is set on the instance
  and the instance is saved, which replaces the stored row of its primary key.
\<close>

definition ModelSerializer_update :: "database \<Rightarrow> User \<Rightarrow> data \<Rightarrow> User \<times> database" where
  "ModelSerializer_update db inst validated_data =
     (let u = User_setattrs inst validated_data
      in (u, db\<lparr>users := map (\<lambda>x. if user_id x = user_id u then u else x) (users db)\<rparr>))"

text \<open>\<^verbatim>\<open>is_valid\<close> and \<^verbatim>\<open>save\<close> of a \<^verbatim>\<open>MeSerializer\<close> built on an instance.\<close>

definition MeSerializer_save ::
  "(field_class \<Rightarrow> string \<Rightarrow> bool) \<Rightarrow> bool \<Rightarrow> validator \<Rightarrow> validator \<Rightarrow> database \<Rightarrow> User
     \<Rightarrow> data \<Rightarrow> error + User \<times> database" where
  "MeSerializer_save class_validators partial username_validate email_validate db inst d =
     (case MeSerializer_run_validation class_validators partial username_validate email_validate
             db inst d of
        Inl e \<Rightarrow> Inl e
      | Inr validated_data \<Rightarrow> Inr (ModelSerializer_update db inst validated_data))"

text \<open>
  A sample of the framework's format validators, used only at concrete inputs: an email
  has an \<^verbatim>\<open>@\<close>, a character field takes any text.
\<close>

definition sample_class_validators :: "field_class \<Rightarrow> string \<Rightarrow> bool" where
  "sample_class_validators c v = (case c of CharField \<Rightarrow> True | EmailField \<Rightarrow> CHR ''@'' \<in> set v)"

section \<open>One review per title and author\<close>

lemma get_title_found:
  "k \<in> set (map title_id (titles db)) \<Longrightarrow> \<exists>t. get_object_or_404_Title db (Some k) = Inr t \<and> title_id t = k"
proof -
  assume "k \<in> set (map title_id (titles db))"
  then have "\<exists>t\<in>set (titles db). title_id t = k" by auto
  then obtain t where "find (\<lambda>t. title_id t = k) (titles db) = Some t"
    by (cases "find (\<lambda>t. title_id t = k) (titles db)") (auto simp: find_None_iff)
  moreover from this have "title_id t = k" by (auto simp: find_Some_iff)
  ultimately show ?thesis by (simp add: get_object_or_404_Title_def)
qed

lemma get_title_missing:
  "k \<notin> set (map title_id (titles db)) \<Longrightarrow> get_object_or_404_Title db (Some k) = Inl Http404"
proof -
  assume "k \<notin> set (map title_id (titles db))"
  then have "find (\<lambda>t. title_id t = k) (titles db) = None"
    by (auto simp: find_None_iff)
  then show ?thesis by (simp add: get_object_or_404_Title_def)
qed

lemma review_exists_iff:
  "review_exists db t a = ((title_id t, a) \<in> set (map unique_review_key (reviews db)))"
  by (force simp: review_exists_def unique_review_key_def filter_empty_conv image_iff)

lemma reviewed_title_stored:
  "references_ok db \<Longrightarrow> (k, a) \<in> set (map unique_review_key (reviews db))
     \<Longrightarrow> k \<in> set (map title_id (titles db))"
  by (auto simp: references_ok_def list_all_iff unique_review_key_def)

text \<open>
  C1. When the author of a POST request already has a review of the title, in a
  database whose reviews point at stored titles, \<open>ReviewSerializer_validate\<close> raises the
  validation error "no more than one review may be added". The uniqueness constraint
  of the migration refuses the insertion of a second row with the same (title, author),
  and every insertion it lets through keeps at most one review per (title, author) pair.
\<close>

theorem one_review_per_title_and_author:
  "(references_ok db \<and> request_method req = ''POST'' \<and>
      (k, request_user req) \<in> set (map unique_review_key (reviews db))
      \<longrightarrow> ReviewSerializer_validate db req (Some k) d = Inl (ValidationError OneReviewOnly)) \<and>
   (unique_review_key r \<in> set (map unique_review_key (reviews db))
      \<longrightarrow> insert_review db r = Inl IntegrityError) \<and>
   (one_review_per_pair db \<and> insert_review db r = Inr db' \<longrightarrow> one_review_per_pair db')"
proof (intro conjI impI)
  assume h: "references_ok db \<and> request_method req = ''POST'' \<and>
      (k, request_user req) \<in> set (map unique_review_key (reviews db))"
  then have "k \<in> set (map title_id (titles db))"
    using reviewed_title_stored by blast
  then obtain t where t: "get_object_or_404_Title db (Some k) = Inr t" "title_id t = k"
    using get_title_found by blast
  with h have "review_exists db t (request_user req)"
    by (simp only: review_exists_iff)
  with t h show "ReviewSerializer_validate db req (Some k) d = Inl (ValidationError OneReviewOnly)"
    by (simp add: ReviewSerializer_validate_def)
next
  assume "unique_review_key r \<in> set (map unique_review_key (reviews db))"
  then show "insert_review db r = Inl IntegrityError"
    by (simp add: insert_review_def)
next
  assume "one_review_per_pair db \<and> insert_review db r = Inr db'"
  then show "one_review_per_pair db'"
    by (auto simp: one_review_per_pair_def insert_review_def split: if_splits)
qed

theorem one_review_per_title_and_author_witness:
  "ReviewSerializer_validate
     \<lparr>users = [], titles = [\<lparr>title_id = 1, title_name = ''Dune'', title_year = 1965\<rparr>],
      reviews = [\<lparr>review_id = 1, review_text = ''good'', review_score = 9, review_title = 1,
                  review_author = 7, review_pub_date = ''2023-02-19''\<rparr>],
      comments = [], raitings = []\<rparr>
     \<lparr>request_method = ''POST'', request_user = 7\<rparr> (Some 1) [''text'' \<mapsto> ''again'', ''score'' \<mapsto> ''3'']
   = Inl (ValidationError OneReviewOnly) \<and>
   insert_review
     \<lparr>users = [], titles = [\<lparr>title_id = 1, title_name = ''Dune'', title_year = 1965\<rparr>],
      reviews = [\<lparr>review_id = 1, review_text = ''good'', review_score = 9, review_title = 1,
                  review_author = 7, review_pub_date = ''2023-02-19''\<rparr>],
      comments = [], raitings = []\<rparr>
     \<lparr>review_id = 2, review_text = ''again'', review_score = 3, review_title = 1,
      review_author = 7, review_pub_date = ''2023-02-20''\<rparr>
   = Inl IntegrityError \<and>
   one_review_per_pair
     \<lparr>users = [], titles = [\<lparr>title_id = 1, title_name = ''Dune'', title_year = 1965\<rparr>],
      reviews = [\<lparr>review_id = 1, review_text = ''good'', review_score = 9, review_title = 1,
                  review_author = 7, review_pub_date = ''2023-02-19''\<rparr>,
                 \<lparr>review_id = 2, review_text = ''fine'', review_score = 6, review_title = 1,
                  review_author = 8, review_pub_date = ''2023-02-20''\<rparr>],
      comments = [], raitings = []\<rparr>"
proof -
  let ?t = "\<lparr>title_id = 1, title_name = ''Dune'', title_year = 1965\<rparr>"
  let ?r1 = "\<lparr>review_id = 1, review_text = ''good'', review_score = 9, review_title = 1,
              review_author = 7, review_pub_date = ''2023-02-19''\<rparr>"
  let ?r2 = "\<lparr>review_id = 2, review_text = ''again'', review_score = 3, review_title = 1,
              review_author = 7, review_pub_date = ''2023-02-20''\<rparr>"
  let ?r3 = "\<lparr>review_id = 2, review_text = ''fine'', review_score = 6, review_title = 1,
              review_author = 8, review_pub_date = ''2023-02-20''\<rparr>"
  let ?db = "\<lparr>users = [], titles = [?t], reviews = [?r1], comments = [], raitings = []\<rparr>"
  let ?db' = "\<lparr>users = [], titles = [?t], reviews = [?r1, ?r3], comments = [], raitings = []\<rparr>"
  let ?req = "\<lparr>request_method = ''POST'', request_user = 7\<rparr>"
  have pre: "references_ok ?db \<and> request_method ?req = ''POST'' \<and>
      (1, request_user ?req) \<in> set (map unique_review_key (reviews ?db))"
    by (simp add: references_ok_def unique_review_key_def)
  have dup: "unique_review_key ?r2 \<in> set (map unique_review_key (reviews ?db))"
    by (simp add: unique_review_key_def)
  have ins: "one_review_per_pair ?db \<and> insert_review ?db ?r3 = Inr ?db'"
    by (simp add: one_review_per_pair_def insert_review_def unique_review_key_def)
  from one_review_per_title_and_author [of ?db ?req 1 "[''text'' \<mapsto> ''again'', ''score'' \<mapsto> ''3'']" ?r2 ?db']
    one_review_per_title_and_author [of ?db ?req 1 "[''text'' \<mapsto> ''again'', ''score'' \<mapsto> ''3'']" ?r3 ?db']
    pre dup ins
  show ?thesis by blast
qed

section \<open>The duplicate check and the request method\<close>

text \<open>
  C10 (as amended). For a request whose method is not POST, \<open>ReviewSerializer_validate\<close>
  never raises the duplicate-review error, whatever reviews are stored. It returns the
  data unchanged when the title named by the route is stored, and raises the 404 of
  \<^verbatim>\<open>get_object_or_404\<close> when it is not (or when the route names none).
\<close>

theorem validate_other_methods:
  "request_method req \<noteq> ''POST'' \<Longrightarrow>
     ReviewSerializer_validate db req pk d \<noteq> Inl (ValidationError OneReviewOnly) \<and>
     (ReviewSerializer_validate db req pk d =
        (if pk \<in> Some ` set (map title_id (titles db)) then Inr d else Inl Http404))"
proof -
  assume m: "request_method req \<noteq> ''POST''"
  have eq: "ReviewSerializer_validate db req pk d =
        (if pk \<in> Some ` set (map title_id (titles db)) then Inr d else Inl Http404)"
  proof (cases pk)
    case None
    then show ?thesis
      by (auto simp: ReviewSerializer_validate_def get_object_or_404_Title_def)
  next
    case (Some k)
    show ?thesis
    proof (cases "k \<in> set (map title_id (titles db))")
      case True
      then obtain t where "get_object_or_404_Title db (Some k) = Inr t"
        using get_title_found by blast
      with m Some True show ?thesis
        by (auto simp: ReviewSerializer_validate_def)
    next
      case False
      then have "get_object_or_404_Title db (Some k) = Inl Http404"
        by (rule get_title_missing)
      with Some False show ?thesis
        by (auto simp: ReviewSerializer_validate_def)
    qed
  qed
  then show ?thesis by (auto split: if_splits)
qed

theorem validate_other_methods_witness:
  "ReviewSerializer_validate
     \<lparr>users = [], titles = [\<lparr>title_id = 1, title_name = ''Dune'', title_year = 1965\<rparr>],
      reviews = [\<lparr>review_id = 1, review_text = ''good'', review_score = 9, review_title = 1,
                  review_author = 7, review_pub_date = ''2023-02-19''\<rparr>],
      comments = [], raitings = []\<rparr>
     \<lparr>request_method = ''PATCH'', request_user = 7\<rparr> (Some 1) [''text'' \<mapsto> ''better'']
   = Inr [''text'' \<mapsto> ''better'']"
  using validate_other_methods [of "\<lparr>request_method = ''PATCH'', request_user = 7\<rparr>"
     "\<lparr>users = [], titles = [\<lparr>title_id = 1, title_name = ''Dune'', title_year = 1965\<rparr>],
      reviews = [\<lparr>review_id = 1, review_text = ''good'', review_score = 9, review_title = 1,
                  review_author = 7, review_pub_date = ''2023-02-19''\<rparr>],
      comments = [], raitings = []\<rparr>" "Some 1" "[''text'' \<mapsto> ''better'']"]
  by simp

text \<open>
  The claim as written fails for a PATCH request on a route whose title is not stored:
  the method is not POST, yet \<open>validate\<close> does not return the data.
\<close>

theorem validate_other_methods_counterexample:
  "\<not> (request_method \<lparr>request_method = ''PATCH'', request_user = 7\<rparr> \<noteq> ''POST'' \<longrightarrow>
      ReviewSerializer_validate
        \<lparr>users = [], titles = [\<lparr>title_id = 1, title_name = ''Dune'', title_year = 1965\<rparr>],
         reviews = [], comments = [], raitings = []\<rparr>
        \<lparr>request_method = ''PATCH'', request_user = 7\<rparr> (Some 9) [''text'' \<mapsto> ''better'']
      = Inr [''text'' \<mapsto> ''better''])"
  by (simp add: ReviewSerializer_validate_def get_object_or_404_Title_def)

section \<open>The role check of the admin serializer\<close>

lemma in_choice_roles: "list_ex (in_pair r) CHOICE_ROLES = enumerated_role r"
  by (auto simp: CHOICE_ROLES_def in_pair_def enumerated_role_def)

lemma in_any_choices:
  "(v, l) \<in> set choice_roles \<Longrightarrow> list_ex (in_pair v) choice_roles"
  by (force simp: list_ex_iff in_pair_def)

text \<open>
  C2. The specification has \<open>validate\<close> raise "a role that does not exist is given"
  exactly when the role is not one of user, moderator, admin. The condition of the
  source, \<^verbatim>\<open>any(role in i for i in CHOICE_ROLES)\<close>, is true exactly when the role is
  one of them: once the two validators have accepted the username and the email, the
  error is raised if and only if the role is an enumerated role, and the data is
  returned if and only if it is not. Whatever the labels of \<^verbatim>\<open>CHOICE_ROLES\<close> are,
  a role that is the stored value of one of its pairs raises the error.
\<close>

theorem admin_validate_role_check_inverted:
  "username_validate (str_get d ''username'') = None \<Longrightarrow>
   email_validate (str_get d ''email'') = None \<Longrightarrow>
     (AdminOrSuperAdminUserSerializer_validate username_validate email_validate CHOICE_ROLES d
        = Inl (ValidationError NonexistentRole)) = enumerated_role (str_get d ''role'') \<and>
     (AdminOrSuperAdminUserSerializer_validate username_validate email_validate CHOICE_ROLES d
        = Inr d) = (\<not> enumerated_role (str_get d ''role'')) \<and>
     ((str_get d ''role'', label) \<in> set choice_roles \<longrightarrow>
        AdminOrSuperAdminUserSerializer_validate username_validate email_validate choice_roles d
        = Inl (ValidationError NonexistentRole))"
  by (simp add: AdminOrSuperAdminUserSerializer_validate_def in_choice_roles in_any_choices)

theorem admin_validate_role_check_inverted_witness:
  "AdminOrSuperAdminUserSerializer_validate accept_all accept_all CHOICE_ROLES
     [''username'' \<mapsto> ''bob'', ''email'' \<mapsto> ''bob@example.com'', ''role'' \<mapsto> ''admin'']
   = Inl (ValidationError NonexistentRole) \<and>
   AdminOrSuperAdminUserSerializer_validate accept_all accept_all CHOICE_ROLES
     [''username'' \<mapsto> ''bob'', ''email'' \<mapsto> ''bob@example.com'', ''role'' \<mapsto> ''owner'']
   = Inr [''username'' \<mapsto> ''bob'', ''email'' \<mapsto> ''bob@example.com'', ''role'' \<mapsto> ''owner'']"
  using admin_validate_role_check_inverted [of accept_all
      "[''username'' \<mapsto> ''bob'', ''email'' \<mapsto> ''bob@example.com'', ''role'' \<mapsto> ''admin'']" accept_all]
    admin_validate_role_check_inverted [of accept_all
      "[''username'' \<mapsto> ''bob'', ''email'' \<mapsto> ''bob@example.com'', ''role'' \<mapsto> ''owner'']" accept_all]
  by (simp add: accept_all_def str_get_def enumerated_role_def)

section \<open>The validators of the sign-up serializer\<close>

lemma user_validate_checks_email:
  "username_validate (str_get d ''username'') = None \<Longrightarrow>
     UserSerializer_validate username_validate email_validate (d(''email'' \<mapsto> e)) =
       (case email_validate e of Some err \<Rightarrow> Inl err | None \<Rightarrow> Inr (d(''email'' \<mapsto> e)))"
  by (simp add: UserSerializer_validate_def str_get_def)

text \<open>
  C3. \<open>SignUpSerializer_validate\<close> hands the username, not the email, to the email
  validator: whether it accepts does not depend on the submitted email at all, and it
  raises whatever the email validator raises on the username. (The sibling
  \<open>UserSerializer_validate\<close> does hand the email over, see \<open>user_validate_checks_email\<close>.)
\<close>

theorem signup_validate_ignores_email:
  "isl (SignUpSerializer_validate username_validate email_validate (d(''email'' \<mapsto> e1))) =
   isl (SignUpSerializer_validate username_validate email_validate (d(''email'' \<mapsto> e2))) \<and>
   SignUpSerializer_validate sample_username_validate sample_email_validate
     [''username'' \<mapsto> ''bob'', ''email'' \<mapsto> ''bob@example.com'']
   = Inl (ValidationError (Rejected ''bob'')) \<and>
   SignUpSerializer_validate sample_username_validate sample_email_validate
     [''username'' \<mapsto> ''b@b'', ''email'' \<mapsto> ''nonsense'']
   = Inr [''username'' \<mapsto> ''b@b'', ''email'' \<mapsto> ''nonsense'']"
  by (simp add: SignUpSerializer_validate_def str_get_def sample_username_validate_def
      sample_email_validate_def split: option.splits)

section \<open>Confirmation codes of created users\<close>

lemma User_objects_create_code:
  "User_objects_create defaults db kwargs = (u, db') \<Longrightarrow>
     confirmation_code u = set_attr kwargs ''confirmation_code'' (confirmation_code defaults)"
  by (auto simp: User_objects_create_def User_setattrs_def Let_def)

lemma UserSerializer_create_code:
  "UserSerializer_create address defaults db vd = Inr (u, db') \<Longrightarrow>
     confirmation_code u = str_function (get_unique_confirmation_code address)"
  by (auto simp: UserSerializer_create_def Let_def set_attr_def split: if_splits
      dest!: User_objects_create_code)

lemma AdminOrSuperAdminUserSerializer_create_code:
  "AdminOrSuperAdminUserSerializer_create address defaults db vd = Inr (u, db') \<Longrightarrow>
     confirmation_code u = str_function (get_unique_confirmation_code address)"
  by (auto simp: AdminOrSuperAdminUserSerializer_create_def Let_def set_attr_def split: if_splits
      dest!: User_objects_create_code)

text \<open>
  C4. The specification has every created user receive a fresh code, distinct from that
  of every other created user. In the source the name \<^verbatim>\<open>get_unique_confirmation_code\<close>
  is never called: the code stored is the text of the function object, so any two users
  created while the module is loaded, by either serializer, get the same code.
\<close>

theorem created_users_share_confirmation_code:
  "(UserSerializer_create address df1 db1 vd1 = Inr (u1, db1') \<or>
    AdminOrSuperAdminUserSerializer_create address df1 db1 vd1 = Inr (u1, db1')) \<Longrightarrow>
   (UserSerializer_create address df2 db2 vd2 = Inr (u2, db2') \<or>
    AdminOrSuperAdminUserSerializer_create address df2 db2 vd2 = Inr (u2, db2')) \<Longrightarrow>
   confirmation_code u1 = confirmation_code u2"
  by (auto dest!: UserSerializer_create_code AdminOrSuperAdminUserSerializer_create_code)

theorem created_users_share_confirmation_code_witness:
  "\<exists>u1 db1 u2 db2.
     UserSerializer_create ''7f3a5c1d2e50''
       \<lparr>user_id = 0, username = [], email = [], first_name = [], last_name = [], bio = [],
        role = ''user'', confirmation_code = []\<rparr>
       \<lparr>users = [], titles = [], reviews = [], comments = [], raitings = []\<rparr>
       [''username'' \<mapsto> ''alice'', ''email'' \<mapsto> ''alice@example.com'']
     = Inr (u1, db1) \<and>
     AdminOrSuperAdminUserSerializer_create ''7f3a5c1d2e50''
       \<lparr>user_id = 0, username = [], email = [], first_name = [], last_name = [], bio = [],
        role = ''user'', confirmation_code = []\<rparr>
       db1
       [''username'' \<mapsto> ''bob'', ''email'' \<mapsto> ''bob@example.com'', ''role'' \<mapsto> ''moderator'']
     = Inr (u2, db2) \<and>
     (user_id u1, username u1) = (1, ''alice'') \<and> (user_id u2, username u2) = (2, ''bob'') \<and>
     users db2 = [u1, u2] \<and>
     confirmation_code u1 = ''<function get_unique_confirmation_code at 0x7f3a5c1d2e50>'' \<and>
     confirmation_code u2 = confirmation_code u1"
proof -
  let ?a = "''7f3a5c1d2e50''"
  let ?code = "''<function get_unique_confirmation_code at 0x7f3a5c1d2e50>''"
  let ?df = "\<lparr>user_id = 0, username = [], email = [], first_name = [], last_name = [],
             bio = [], role = ''user'', confirmation_code = []\<rparr>"
  let ?db0 = "\<lparr>users = [], titles = [], reviews = [], comments = [], raitings = []\<rparr>"
  let ?vd1 = "[''username'' \<mapsto> ''alice'', ''email'' \<mapsto> ''alice@example.com'']"
  let ?vd2 = "[''username'' \<mapsto> ''bob'', ''email'' \<mapsto> ''bob@example.com'', ''role'' \<mapsto> ''moderator'']"
  let ?u1 = "\<lparr>user_id = 1, username = ''alice'', email = ''alice@example.com'', first_name = [],
             last_name = [], bio = [], role = ''user'', confirmation_code = ?code\<rparr>"
  let ?u2 = "\<lparr>user_id = 2, username = ''bob'', email = ''bob@example.com'', first_name = [],
             last_name = [], bio = [], role = ''moderator'', confirmation_code = ?code\<rparr>"
  let ?db1 = "\<lparr>users = [?u1], titles = [], reviews = [], comments = [], raitings = []\<rparr>"
  let ?db2 = "\<lparr>users = [?u1, ?u2], titles = [], reviews = [], comments = [], raitings = []\<rparr>"
  have c1: "UserSerializer_create ?a ?df ?db0 ?vd1 = Inr (?u1, ?db1)"
    by (simp add: UserSerializer_create_def User_objects_create_def User_setattrs_def
        set_attr_def fresh_user_id_def str_function_def get_unique_confirmation_code_def Let_def)
  have c2: "AdminOrSuperAdminUserSerializer_create ?a ?df ?db1 ?vd2 = Inr (?u2, ?db2)"
    by (simp add: AdminOrSuperAdminUserSerializer_create_def User_objects_create_def
        User_setattrs_def set_attr_def fresh_user_id_def str_function_def
        get_unique_confirmation_code_def Let_def)
  have same: "confirmation_code ?u1 = confirmation_code ?u2"
    using created_users_share_confirmation_code
      [of ?a ?df ?db0 ?vd1 ?u1 ?db1 ?df ?db1 ?vd2 ?u2 ?db2] c1 c2
    by blast
  have rest: "(user_id ?u1, username ?u1) = (1, ''alice'') \<and>
      (user_id ?u2, username ?u2) = (2, ''bob'') \<and> users ?db2 = [?u1, ?u2] \<and>
      confirmation_code ?u1 = ?code"
    by simp
  from c1 c2 same rest show ?thesis
    by (intro exI [of _ ?u1] exI [of _ ?db1] exI [of _ ?u2] exI [of _ ?db2]) simp
qed

section \<open>The confirmation code of a token request\<close>




section \<open>Cascading deletes\<close>

lemma delete_reviews_reviews:
  "reviews (delete_reviews db pks) = filter (\<lambda>r. review_id r \<notin> set pks) (reviews db)"
  by (simp add: delete_reviews_def Let_def)

lemma delete_reviews_comments:
  "comments (delete_reviews db pks) = filter (\<lambda>c. comment_review c \<notin> set pks) (comments db)"
  by (simp add: delete_reviews_def Let_def comment_review_fk_def)

lemma delete_reviews_titles: "titles (delete_reviews db pks) = titles db"
  by (simp add: delete_reviews_def Let_def)

lemma delete_title_reviews:
  "reviews (delete_title db k) =
     filter (\<lambda>r. review_id r \<notin> review_id ` {x \<in> set (reviews db). review_title x = k}) (reviews db)"
  by (simp add: delete_title_def Let_def review_title_fk_def raiting_title_fk_def
      delete_reviews_reviews)

lemma delete_title_comments:
  "comments (delete_title db k) =
     filter (\<lambda>c. comment_review c \<notin> review_id ` {x \<in> set (reviews db). review_title x = k})
       (comments db)"
  by (simp add: delete_title_def Let_def review_title_fk_def raiting_title_fk_def
      delete_reviews_comments)

lemma delete_title_titles:
  "titles (delete_title db k) = filter (\<lambda>t. title_id t \<noteq> k) (titles db)"
  by (simp add: delete_title_def Let_def review_title_fk_def raiting_title_fk_def
      delete_reviews_titles)

lemma delete_reviews_references_ok:
  "references_ok db \<Longrightarrow> references_ok (delete_reviews db pks)"
  by (auto simp: references_ok_def list_all_iff delete_reviews_reviews delete_reviews_comments
      delete_reviews_titles)

lemma delete_title_references_ok:
  "references_ok db \<Longrightarrow> references_ok (delete_title db k)"
proof -
  assume ok: "references_ok db"
  let ?gone = "review_id ` {x \<in> set (reviews db). review_title x = k}"
  have "review_title r \<in> set (map title_id (titles (delete_title db k)))"
    if r: "r \<in> set (reviews (delete_title db k))" for r
  proof -
    from r have in_db: "r \<in> set (reviews db)" and kept: "review_id r \<notin> ?gone"
      by (simp_all add: delete_title_reviews)
    from kept in_db have "review_title r \<noteq> k" by blast
    moreover from ok in_db have "review_title r \<in> set (map title_id (titles db))"
      by (simp add: references_ok_def list_all_iff)
    ultimately show ?thesis by (auto simp: delete_title_titles)
  qed
  moreover have "comment_review c \<in> set (map review_id (reviews (delete_title db k)))"
    if c: "c \<in> set (comments (delete_title db k))" for c
  proof -
    from c have in_db: "c \<in> set (comments db)" and kept: "comment_review c \<notin> ?gone"
      by (simp_all add: delete_title_comments)
    from ok in_db obtain r where "r \<in> set (reviews db)" "comment_review c = review_id r"
      by (auto simp: references_ok_def list_all_iff)
    with kept show ?thesis by (auto simp: delete_title_reviews)
  qed
  ultimately show ?thesis
    by (simp add: references_ok_def list_all_iff)
qed

text \<open>
  C7. After a title is deleted, the title is gone, no review of that title is left and
  no comment on any review of that title is left; after a review is deleted, the review
  is gone and no comment on it is left. Both deletions keep referential integrity: if
  every review pointed at a stored title and every comment at a stored review before,
  the same is true after, so nothing refers to a deleted parent.
\<close>

theorem delete_cascades:
  "k \<notin> set (map title_id (titles (delete_title db k))) \<and>
   (\<forall>r \<in> set (reviews (delete_title db k)). review_title r \<noteq> k) \<and>
   (\<forall>c \<in> set (comments (delete_title db k)).
      \<forall>r \<in> set (reviews db). review_title r = k \<longrightarrow> comment_review c \<noteq> review_id r) \<and>
   p \<notin> set (map review_id (reviews (delete_review db p))) \<and>
   (\<forall>c \<in> set (comments (delete_review db p)). comment_review c \<noteq> p) \<and>
   (references_ok db \<longrightarrow> references_ok (delete_title db k) \<and> references_ok (delete_review db p))"
proof (intro conjI)
  show "k \<notin> set (map title_id (titles (delete_title db k)))"
    by (auto simp: delete_title_titles)
  show "\<forall>r \<in> set (reviews (delete_title db k)). review_title r \<noteq> k"
    by (auto simp: delete_title_reviews)
  show "\<forall>c \<in> set (comments (delete_title db k)).
      \<forall>r \<in> set (reviews db). review_title r = k \<longrightarrow> comment_review c \<noteq> review_id r"
    by (auto simp: delete_title_comments)
  show "p \<notin> set (map review_id (reviews (delete_review db p)))"
    by (auto simp: delete_review_def delete_reviews_reviews)
  show "\<forall>c \<in> set (comments (delete_review db p)). comment_review c \<noteq> p"
    by (auto simp: delete_review_def delete_reviews_comments)
  show "references_ok db \<longrightarrow> references_ok (delete_title db k) \<and> references_ok (delete_review db p)"
    by (simp add: delete_title_references_ok delete_review_def delete_reviews_references_ok)
qed

theorem delete_cascades_witness:
  "delete_title
     \<lparr>users = [],
      titles = [\<lparr>title_id = 1, title_name = ''Dune'', title_year = 1965\<rparr>,
                \<lparr>title_id = 2, title_name = ''Solaris'', title_year = 1961\<rparr>],
      reviews = [\<lparr>review_id = 1, review_text = ''good'', review_score = 9, review_title = 1,
                  review_author = 7, review_pub_date = ''2023-02-19''\<rparr>,
                 \<lparr>review_id = 2, review_text = ''slow'', review_score = 5, review_title = 2,
                  review_author = 7, review_pub_date = ''2023-02-20''\<rparr>],
      comments = [\<lparr>comment_id = 1, comment_text = ''agreed'', comment_review = 1,
                   comment_author = 8, comment_pub_date = ''2023-02-21''\<rparr>,
                  \<lparr>comment_id = 2, comment_text = ''no'', comment_review = 2,
                   comment_author = 8, comment_pub_date = ''2023-02-22''\<rparr>],
      raitings = [\<lparr>raiting_id = 1, raiting_title = 1, raiting_author = Some 7\<rparr>]\<rparr> 1
   = \<lparr>users = [],
      titles = [\<lparr>title_id = 2, title_name = ''Solaris'', title_year = 1961\<rparr>],
      reviews = [\<lparr>review_id = 2, review_text = ''slow'', review_score = 5, review_title = 2,
                  review_author = 7, review_pub_date = ''2023-02-20''\<rparr>],
      comments = [\<lparr>comment_id = 2, comment_text = ''no'', comment_review = 2,
                   comment_author = 8, comment_pub_date = ''2023-02-22''\<rparr>],
      raitings = []\<rparr> \<and>
   references_ok
     (delete_title
        \<lparr>users = [],
         titles = [\<lparr>title_id = 1, title_name = ''Dune'', title_year = 1965\<rparr>,
                   \<lparr>title_id = 2, title_name = ''Solaris'', title_year = 1961\<rparr>],
         reviews = [\<lparr>review_id = 1, review_text = ''good'', review_score = 9, review_title = 1,
                     review_author = 7, review_pub_date = ''2023-02-19''\<rparr>,
                    \<lparr>review_id = 2, review_text = ''slow'', review_score = 5, review_title = 2,
                     review_author = 7, review_pub_date = ''2023-02-20''\<rparr>],
         comments = [\<lparr>comment_id = 1, comment_text = ''agreed'', comment_review = 1,
                      comment_author = 8, comment_pub_date = ''2023-02-21''\<rparr>,
                     \<lparr>comment_id = 2, comment_text = ''no'', comment_review = 2,
                      comment_author = 8, comment_pub_date = ''2023-02-22''\<rparr>],
         raitings = [\<lparr>raiting_id = 1, raiting_title = 1, raiting_author = Some 7\<rparr>]\<rparr> 1) \<and>
   comments
     (delete_review
        \<lparr>users = [],
         titles = [\<lparr>title_id = 1, title_name = ''Dune'', title_year = 1965\<rparr>,
                   \<lparr>title_id = 2, title_name = ''Solaris'', title_year = 1961\<rparr>],
         reviews = [\<lparr>review_id = 1, review_text = ''good'', review_score = 9, review_title = 1,
                     review_author = 7, review_pub_date = ''2023-02-19''\<rparr>,
                    \<lparr>review_id = 2, review_text = ''slow'', review_score = 5, review_title = 2,
                     review_author = 7, review_pub_date = ''2023-02-20''\<rparr>],
         comments = [\<lparr>comment_id = 1, comment_text = ''agreed'', comment_review = 1,
                      comment_author = 8, comment_pub_date = ''2023-02-21''\<rparr>,
                     \<lparr>comment_id = 2, comment_text = ''no'', comment_review = 2,
                      comment_author = 8, comment_pub_date = ''2023-02-22''\<rparr>],
         raitings = [\<lparr>raiting_id = 1, raiting_title = 1, raiting_author = Some 7\<rparr>]\<rparr> 2)
   = [\<lparr>comment_id = 1, comment_text = ''agreed'', comment_review = 1,
        comment_author = 8, comment_pub_date = ''2023-02-21''\<rparr>]"
proof -
  let ?db = "\<lparr>users = [],
      titles = [\<lparr>title_id = 1, title_name = ''Dune'', title_year = 1965\<rparr>,
                \<lparr>title_id = 2, title_name = ''Solaris'', title_year = 1961\<rparr>],
      reviews = [\<lparr>review_id = 1, review_text = ''good'', review_score = 9, review_title = 1,
                  review_author = 7, review_pub_date = ''2023-02-19''\<rparr>,
                 \<lparr>review_id = 2, review_text = ''slow'', review_score = 5, review_title = 2,
                  review_author = 7, review_pub_date = ''2023-02-20''\<rparr>],
      comments = [\<lparr>comment_id = 1, comment_text = ''agreed'', comment_review = 1,
                   comment_author = 8, comment_pub_date = ''2023-02-21''\<rparr>,
                  \<lparr>comment_id = 2, comment_text = ''no'', comment_review = 2,
                   comment_author = 8, comment_pub_date = ''2023-02-22''\<rparr>],
      raitings = [\<lparr>raiting_id = 1, raiting_title = 1, raiting_author = Some 7\<rparr>]\<rparr>"
  have ok: "references_ok ?db"
    by (simp add: references_ok_def)
  have run: "delete_title ?db 1
     = \<lparr>users = [],
      titles = [\<lparr>title_id = 2, title_name = ''Solaris'', title_year = 1961\<rparr>],
      reviews = [\<lparr>review_id = 2, review_text = ''slow'', review_score = 5, review_title = 2,
                  review_author = 7, review_pub_date = ''2023-02-20''\<rparr>],
      comments = [\<lparr>comment_id = 2, comment_text = ''no'', comment_review = 2,
                   comment_author = 8, comment_pub_date = ''2023-02-22''\<rparr>],
      raitings = []\<rparr>"
    by (simp add: delete_title_def delete_reviews_def Let_def review_title_fk_def
        raiting_title_fk_def comment_review_fk_def)
  have run2: "comments (delete_review ?db 2)
     = [\<lparr>comment_id = 1, comment_text = ''agreed'', comment_review = 1,
        comment_author = 8, comment_pub_date = ''2023-02-21''\<rparr>]"
    by (simp add: delete_review_def delete_reviews_def Let_def comment_review_fk_def)
  from delete_cascades [of 1 ?db 2] ok have "references_ok (delete_title ?db 1)"
    by blast
  with run run2 show ?thesis by (simp only: simp_thms)
qed

section \<open>The JSON shape of reviews and comments\<close>

lemma ReviewSerializer_all_fields:
  "all_fields ReviewSerializer_declared Review_info =
     [(''id'', ModelField), (''author'', SlugRelatedField ''username'' True),
      (''title'', SlugRelatedField ''name'' True), (''text'', ModelField),
      (''score'', ModelField), (''pub_date'', ModelField)]"
  by (simp add: all_fields_def ReviewSerializer_declared_def Review_info_def build_field_def)

lemma CommentSerializer_all_fields:
  "all_fields CommentSerializer_declared Comment_info =
     [(''id'', ModelField), (''author'', SlugRelatedField ''username'' True),
      (''reviews'', SlugRelatedField ''text'' True), (''text'', ModelField),
      (''pub_date'', ModelField), (''review'', PrimaryKeyRelatedField)]"
  by (simp add: all_fields_def CommentSerializer_declared_def Comment_info_def build_field_def)

text \<open>
  C8. For a review whose author and title are stored, \<open>ReviewSerializer\<close> produces the
  object with exactly the fields id, author, title, text, score and pub_date: the
  author is rendered as the author's username and the title as the title's name.
\<close>

theorem review_json_shape:
  "find (\<lambda>u. user_id u = review_author r) (users db) = Some a \<Longrightarrow>
   find (\<lambda>t. title_id t = review_title r) (titles db) = Some t \<Longrightarrow>
   ReviewSerializer_to_representation db r =
     Inr [(''id'', JInt (int (review_id r))),
          (''author'', JStr (username a)),
          (''title'', JStr (title_name t)),
          (''text'', JStr (review_text r)),
          (''score'', JInt (review_score r)),
          (''pub_date'', JStr (review_pub_date r))]"
  by (simp add: ReviewSerializer_to_representation_def ReviewSerializer_all_fields related_def)

theorem review_json_shape_witness:
  "ReviewSerializer_to_representation
     \<lparr>users = [\<lparr>user_id = 7, username = ''alice'', email = ''alice@example.com'',
                 first_name = [], last_name = [], bio = [], role = ''user'',
                 confirmation_code = []\<rparr>],
      titles = [\<lparr>title_id = 1, title_name = ''Dune'', title_year = 1965\<rparr>],
      reviews = [\<lparr>review_id = 3, review_text = ''good'', review_score = 9, review_title = 1,
                  review_author = 7, review_pub_date = ''2023-02-19T13:06:00Z''\<rparr>],
      comments = [], raitings = []\<rparr>
     \<lparr>review_id = 3, review_text = ''good'', review_score = 9, review_title = 1,
      review_author = 7, review_pub_date = ''2023-02-19T13:06:00Z''\<rparr>
   = Inr [(''id'', JInt 3), (''author'', JStr ''alice''), (''title'', JStr ''Dune''),
          (''text'', JStr ''good''), (''score'', JInt 9),
          (''pub_date'', JStr ''2023-02-19T13:06:00Z'')]"
  using review_json_shape
    [of "\<lparr>review_id = 3, review_text = ''good'', review_score = 9, review_title = 1,
          review_author = 7, review_pub_date = ''2023-02-19T13:06:00Z''\<rparr>"
        "\<lparr>users = [\<lparr>user_id = 7, username = ''alice'', email = ''alice@example.com'',
                 first_name = [], last_name = [], bio = [], role = ''user'',
                 confirmation_code = []\<rparr>],
      titles = [\<lparr>title_id = 1, title_name = ''Dune'', title_year = 1965\<rparr>],
      reviews = [\<lparr>review_id = 3, review_text = ''good'', review_score = 9, review_title = 1,
                  review_author = 7, review_pub_date = ''2023-02-19T13:06:00Z''\<rparr>],
      comments = [], raitings = []\<rparr>"
        "\<lparr>user_id = 7, username = ''alice'', email = ''alice@example.com'',
                 first_name = [], last_name = [], bio = [], role = ''user'',
                 confirmation_code = []\<rparr>"
        "\<lparr>title_id = 1, title_name = ''Dune'', title_year = 1965\<rparr>"]
  by simp

text \<open>
  C6. For a comment whose author is stored, \<open>CommentSerializer\<close> produces an object
  that exposes the comment's text, its parent review (under \<^verbatim>\<open>review\<close>, as the
  review's key) and its author as the author's username, next to the id and the
  publication date. The declared field \<^verbatim>\<open>reviews\<close> names no attribute of a comment
  and, being read-only, is left out.
\<close>

theorem comment_json_shape:
  "find (\<lambda>u. user_id u = comment_author c) (users db) = Some a \<Longrightarrow>
   CommentSerializer_to_representation db c =
     Inr [(''id'', JInt (int (comment_id c))),
          (''author'', JStr (username a)),
          (''text'', JStr (comment_text c)),
          (''pub_date'', JStr (comment_pub_date c)),
          (''review'', JInt (int (comment_review c)))]"
  by (simp add: CommentSerializer_to_representation_def CommentSerializer_all_fields related_def)

theorem comment_json_shape_witness:
  "CommentSerializer_to_representation
     \<lparr>users = [\<lparr>user_id = 8, username = ''bob'', email = ''bob@example.com'',
                 first_name = [], last_name = [], bio = [], role = ''user'',
                 confirmation_code = []\<rparr>],
      titles = [\<lparr>title_id = 1, title_name = ''Dune'', title_year = 1965\<rparr>],
      reviews = [\<lparr>review_id = 3, review_text = ''good'', review_score = 9, review_title = 1,
                  review_author = 7, review_pub_date = ''2023-02-19T13:06:00Z''\<rparr>],
      comments = [], raitings = []\<rparr>
     \<lparr>comment_id = 5, comment_text = ''agreed'', comment_review = 3, comment_author = 8,
      comment_pub_date = ''2023-02-21T09:00:00Z''\<rparr>
   = Inr [(''id'', JInt 5), (''author'', JStr ''bob''), (''text'', JStr ''agreed''),
          (''pub_date'', JStr ''2023-02-21T09:00:00Z''), (''review'', JInt 3)]"
  using comment_json_shape
    [of "\<lparr>comment_id = 5, comment_text = ''agreed'', comment_review = 3, comment_author = 8,
          comment_pub_date = ''2023-02-21T09:00:00Z''\<rparr>"
        "\<lparr>users = [\<lparr>user_id = 8, username = ''bob'', email = ''bob@example.com'',
                 first_name = [], last_name = [], bio = [], role = ''user'',
                 confirmation_code = []\<rparr>],
      titles = [\<lparr>title_id = 1, title_name = ''Dune'', title_year = 1965\<rparr>],
      reviews = [\<lparr>review_id = 3, review_text = ''good'', review_score = 9, review_title = 1,
                  review_author = 7, review_pub_date = ''2023-02-19T13:06:00Z''\<rparr>],
      comments = [], raitings = []\<rparr>"
        "\<lparr>user_id = 8, username = ''bob'', email = ''bob@example.com'',
                 first_name = [], last_name = [], bio = [], role = ''user'',
                 confirmation_code = []\<rparr>"]
  by simp

section \<open>The role of a profile is read-only\<close>

lemma to_internal_value_reads_writable:
  "\<forall>f \<in> set fs. \<not> read_only f \<longrightarrow> d' (field_name f) = d (field_name f) \<Longrightarrow>
     to_internal_value cv p fs d' errors ret = to_internal_value cv p fs d errors ret"
  by (induction fs arbitrary: errors ret) (simp_all split: sum.splits option.splits)

lemma to_internal_value_read_only_key:
  "\<forall>f \<in> set fs. field_name f = k \<longrightarrow> read_only f \<Longrightarrow>
     to_internal_value cv p fs (d(k := x)) errors ret = to_internal_value cv p fs d errors ret"
  by (rule to_internal_value_reads_writable) auto

lemma to_internal_value_read_only_absent:
  "\<forall>f \<in> set fs. field_name f = k \<longrightarrow> read_only f \<Longrightarrow> ret k = None \<Longrightarrow>
     snd (to_internal_value cv p fs d errors ret) k = None"
proof (induction fs arbitrary: errors ret)
  case Nil
  then show ?case by simp
next
  case (Cons f fs)
  show ?case
  proof (cases "read_only f")
    case True
    with Cons show ?thesis by simp
  next
    case False
    with Cons.prems have "field_name f \<noteq> k" by auto
    with Cons show ?thesis
      by (auto split: sum.splits option.splits)
  qed
qed

lemma MeSerializer_role_read_only:
  "\<forall>f \<in> set MeSerializer_fields. field_name f = ''role'' \<longrightarrow> read_only f"
  by (simp add: MeSerializer_fields_def)

lemma MeSerializer_validated_without_role:
  "MeSerializer_run_validation cv p uv ev db inst d = Inr vd \<Longrightarrow> vd ''role'' = None \<and> vd ''confirmation_code'' = None"
proof -
  assume run: "MeSerializer_run_validation cv p uv ev db inst d = Inr vd"
  obtain errors attrs where t: "to_internal_value cv p MeSerializer_fields d [] Map.empty = (errors, attrs)"
    by (cases "to_internal_value cv p MeSerializer_fields d [] Map.empty")
  have "\<forall>f \<in> set MeSerializer_fields. field_name f = ''confirmation_code'' \<longrightarrow> read_only f"
    by (simp add: MeSerializer_fields_def)
  then have "snd (to_internal_value cv p MeSerializer_fields d [] Map.empty) ''confirmation_code'' = None"
    by (rule to_internal_value_read_only_absent) simp
  moreover have "snd (to_internal_value cv p MeSerializer_fields d [] Map.empty) ''role'' = None"
    using MeSerializer_role_read_only by (rule to_internal_value_read_only_absent) simp
  ultimately have none: "attrs ''role'' = None \<and> attrs ''confirmation_code'' = None"
    using t by simp
  from run t have "vd = attrs"
    by (auto simp: MeSerializer_run_validation_def MeSerializer_validate_def
        split: list.splits option.splits)
  with none show ?thesis by simp
qed

text \<open>
  C9. Updating a profile through \<open>MeSerializer\<close> never reads the role of the request:
  the outcome is the same whatever role is submitted, or none. When the update
  succeeds, the role of the updated user is the role it had, as are its key and its
  confirmation code, and the stored rows of that key carry the old role.
\<close>

theorem me_role_unchanged:
  "MeSerializer_save cv p uv ev db inst (d(''role'' \<mapsto> x)) =
     MeSerializer_save cv p uv ev db inst (d(''role'' := None)) \<and>
   (MeSerializer_save cv p uv ev db inst d = Inr (u, db') \<longrightarrow>
      role u = role inst \<and> user_id u = user_id inst \<and>
      confirmation_code u = confirmation_code inst \<and>
      (\<forall>y \<in> set (users db'). user_id y = user_id inst \<longrightarrow> role y = role inst))"
proof (intro conjI impI)
  have "to_internal_value cv p MeSerializer_fields (d(''role'' \<mapsto> x)) [] Map.empty =
        to_internal_value cv p MeSerializer_fields (d(''role'' := None)) [] Map.empty"
    using to_internal_value_read_only_key [OF MeSerializer_role_read_only, of cv p d]
    by simp
  then show "MeSerializer_save cv p uv ev db inst (d(''role'' \<mapsto> x)) =
     MeSerializer_save cv p uv ev db inst (d(''role'' := None))"
    by (simp add: MeSerializer_save_def MeSerializer_run_validation_def)
next
  assume ok: "MeSerializer_save cv p uv ev db inst d = Inr (u, db')"
  then obtain vd where vd: "MeSerializer_run_validation cv p uv ev db inst d = Inr vd"
    and upd: "ModelSerializer_update db inst vd = (u, db')"
    by (auto simp: MeSerializer_save_def split: sum.splits)
  from vd have none: "vd ''role'' = None" "vd ''confirmation_code'' = None"
    using MeSerializer_validated_without_role by blast+
  from upd have u: "u = User_setattrs inst vd"
    and db': "users db' = map (\<lambda>y. if user_id y = user_id u then u else y) (users db)"
    by (auto simp: ModelSerializer_update_def Let_def)
  from u none show "role u = role inst" "user_id u = user_id inst"
    "confirmation_code u = confirmation_code inst"
    by (simp_all add: User_setattrs_def set_attr_def)
  then show "\<forall>y \<in> set (users db'). user_id y = user_id inst \<longrightarrow> role y = role inst"
    using db' by auto
qed

theorem me_role_unchanged_witness:
  "MeSerializer_save sample_class_validators True sample_username_validate sample_email_validate
     \<lparr>users = [\<lparr>user_id = 7, username = ''alice'', email = ''alice@example.com'',
                 first_name = ''Alice'', last_name = ''A'', bio = ''reader'', role = ''user'',
                 confirmation_code = ''4f2a91''\<rparr>],
      titles = [], reviews = [], comments = [], raitings = []\<rparr>
     \<lparr>user_id = 7, username = ''alice'', email = ''alice@example.com'',
      first_name = ''Alice'', last_name = ''A'', bio = ''reader'', role = ''user'',
      confirmation_code = ''4f2a91''\<rparr>
     [''email'' \<mapsto> ''al@example.org'', ''username'' \<mapsto> ''al'', ''first_name'' \<mapsto> ''Al'',
      ''last_name'' \<mapsto> ''B'', ''bio'' \<mapsto> ''critic'', ''role'' \<mapsto> ''admin'']
   = Inr (\<lparr>user_id = 7, username = ''al'', email = ''al@example.org'',
           first_name = ''Al'', last_name = ''B'', bio = ''critic'', role = ''user'',
           confirmation_code = ''4f2a91''\<rparr>,
          \<lparr>users = [\<lparr>user_id = 7, username = ''al'', email = ''al@example.org'',
                      first_name = ''Al'', last_name = ''B'', bio = ''critic'', role = ''user'',
                      confirmation_code = ''4f2a91''\<rparr>],
           titles = [], reviews = [], comments = [], raitings = []\<rparr>)"
proof -
  let ?inst = "\<lparr>user_id = 7, username = ''alice'', email = ''alice@example.com'',
      first_name = ''Alice'', last_name = ''A'', bio = ''reader'', role = ''user'',
      confirmation_code = ''4f2a91''\<rparr>"
  let ?db = "\<lparr>users = [?inst], titles = [], reviews = [], comments = [], raitings = []\<rparr>"
  let ?d = "[''email'' \<mapsto> ''al@example.org'', ''username'' \<mapsto> ''al'', ''first_name'' \<mapsto> ''Al'',
      ''last_name'' \<mapsto> ''B'', ''bio'' \<mapsto> ''critic'']"
  let ?u = "\<lparr>user_id = 7, username = ''al'', email = ''al@example.org'',
           first_name = ''Al'', last_name = ''B'', bio = ''critic'', role = ''user'',
           confirmation_code = ''4f2a91''\<rparr>"
  let ?db' = "\<lparr>users = [?u], titles = [], reviews = [], comments = [], raitings = []\<rparr>"
  have strip: "strip ''al@example.org'' = ''al@example.org''" "strip ''al'' = ''al''"
    "strip ''Al'' = ''Al''" "strip ''B'' = ''B''" "strip ''critic'' = ''critic''"
    by (simp_all add: strip_def is_space_def)
  have plain: "MeSerializer_save sample_class_validators True sample_username_validate
      sample_email_validate ?db ?inst (?d(''role'' := None)) = Inr (?u, ?db')"
    by (simp add: MeSerializer_save_def MeSerializer_run_validation_def MeSerializer_fields_def
        run_validation_def strip sample_class_validators_def UniqueTogetherValidator_def
        set_attr_def MeSerializer_validate_def str_get_def sample_username_validate_def
        sample_email_validate_def ModelSerializer_update_def User_setattrs_def Let_def)
  from me_role_unchanged [of sample_class_validators True sample_username_validate
      sample_email_validate ?db ?inst ?d "''admin''"] plain
  show ?thesis by simp
qed

end
